theory Spec2Isabelle
  imports Main "HOL-Library.AList"
begin

section \<open>JavaScript values and objects\<close>

text \<open>
  The build script \<^verbatim>\<open>scripts/build-site.jsx\<close> handles plain data: the icon catalog
  (\<^verbatim>\<open>icons.json\<close>), the package description (\<^verbatim>\<open>package.json\<close>) and the front matter
  of every page. A value is one of the JSON shapes, \<^verbatim>\<open>undefined\<close>, or a built-in reached
  through the prototype chain (\<open>Native\<close>, tagged with the property name that led to it).
  The script never computes with a number: it only tests one for truth and prints it. A
  number is therefore carried by the text that \<^verbatim>\<open>ToString\<close> prints for it (\<^verbatim>\<open>12\<close>, \<^verbatim>\<open>-0.5\<close>,
  \<^verbatim>\<open>1e+21\<close>, \<^verbatim>\<open>NaN\<close>). Dates are outside the model. An object is the list of its own
  properties in insertion order, keys distinct.
\<close>

datatype jsval =
    Undefined
  | Null
  | Bool bool
  | Num string
  | Str string
  | Arr "jsval list"
  | Obj "(string \<times> jsval) list"
  | Native string

type_synonym jsobj = "(string \<times> jsval) list"

datatype error = TypeError | ParseError | HighlightError | CompileError | RenderError | IOError

text \<open>\<^verbatim>\<open>promise.then(f)\<close> and plain sequencing: a failure skips the continuation.\<close>

fun and_then :: "error + 'a \<Rightarrow> ('a \<Rightarrow> error + 'b) \<Rightarrow> error + 'b" where
  "and_then (Inl e) f = Inl e"
| "and_then (Inr x) f = f x"

text \<open>\<^verbatim>\<open>array.map(f)\<close> with a callback that may throw: the first throw ends the loop.\<close>

fun map_all :: "('a \<Rightarrow> error + 'b) \<Rightarrow> 'a list \<Rightarrow> error + 'b list" where
  "map_all f [] = Inr []"
| "map_all f (x # xs) =
     (case f x of
        Inl e \<Rightarrow> Inl e
      | Inr y \<Rightarrow> (case map_all f xs of Inl e \<Rightarrow> Inl e | Inr ys \<Rightarrow> Inr (y # ys)))"

subsection \<open>Property order: \<^verbatim>\<open>Object.keys\<close>\<close>

text \<open>
  \<^verbatim>\<open>Object.keys\<close> lists the own keys that are array indices (canonical decimal numerals
  below \<open>2^32 - 1\<close>) first, in ascending numeric order, and then every other key in
  insertion order.
\<close>

definition is_digit :: "char \<Rightarrow> bool" where
  "is_digit c = (c \<in> set ''0123456789'')"

definition digits_value :: "string \<Rightarrow> nat" where
  "digits_value s = foldl (\<lambda>n c. 10 * n + (of_char c - 48)) 0 s"

definition array_index :: "string \<Rightarrow> bool" where
  "array_index s =
     (case s of
        [] \<Rightarrow> False
      | c # cs \<Rightarrow>
          list_all is_digit s \<and> (c \<noteq> CHR ''0'' \<or> cs = []) \<and> digits_value s < 4294967295)"

definition object_keys :: "jsobj \<Rightarrow> string list" where
  "object_keys obj =
     (let ks = map fst obj
      in sort_key digits_value (filter array_index ks) @ filter (\<lambda>k. \<not> array_index k) ks)"

subsection \<open>Property reads\<close>

text \<open>
  \<^verbatim>\<open>obj[k]\<close> on a plain object: an own property, else a member of \<^verbatim>\<open>Object.prototype\<close>,
  else \<^verbatim>\<open>undefined\<close>.
\<close>

definition object_prototype_names :: "string list" where
  "object_prototype_names =
     [''constructor'', ''__defineGetter__'', ''__defineSetter__'', ''hasOwnProperty'',
      ''__lookupGetter__'', ''__lookupSetter__'', ''isPrototypeOf'', ''propertyIsEnumerable'',
      ''toString'', ''valueOf'', ''__proto__'', ''toLocaleString'']"

definition js_index :: "jsobj \<Rightarrow> string \<Rightarrow> jsval" where
  "js_index obj k =
     (case map_of obj k of
        Some v \<Rightarrow> v
      | None \<Rightarrow> if k \<in> set object_prototype_names then Native k else Undefined)"

text \<open>
  \<^verbatim>\<open>v.k\<close> on any value: reading a property of \<^verbatim>\<open>undefined\<close> or \<^verbatim>\<open>null\<close> throws a
  TypeError. The script applies it with the names \<^verbatim>\<open>path\<close> and \<^verbatim>\<open>url\<close> only, which no
  built-in prototype defines, so a receiver that is not a plain object answers as
  \<^verbatim>\<open>Object.prototype\<close> does.
\<close>

definition get_member :: "jsval \<Rightarrow> string \<Rightarrow> error + jsval" where
  "get_member v k =
     (case v of
        Undefined \<Rightarrow> Inl TypeError
      | Null \<Rightarrow> Inl TypeError
      | Obj ps \<Rightarrow> Inr (js_index ps k)
      | _ \<Rightarrow> Inr (js_index [] k))"

section \<open>Pages\<close>

record page =
  data :: jsobj
  content :: string
  fileName :: string

subsection \<open>The content loader\<close>

text \<open>
  \<^verbatim>\<open>path.extname\<close> and \<^verbatim>\<open>path.basename\<close> of Node, on the names \<^verbatim>\<open>fs.readdir\<close> returns:
  names of directory entries, which hold no path separator. The extension starts at the
  last dot; a name with no dot, with its only dot in front, or the name \<^verbatim>\<open>..\<close> has none.
\<close>

definition extname :: "string \<Rightarrow> string" where
  "extname name =
     (let after = takeWhile (\<lambda>c. c \<noteq> CHR ''.'') (rev name);
          startDot = length name - length after - 1
      in if CHR ''.'' \<notin> set name \<or> startDot = 0 \<or> name = ''..'' then []
         else drop startDot name)"

definition ends_with :: "string \<Rightarrow> string \<Rightarrow> bool" where
  "ends_with s suffix = (length suffix \<le> length s \<and> drop (length s - length suffix) s = suffix)"

definition basename :: "string \<Rightarrow> string \<Rightarrow> string" where
  "basename name suffix =
     (if suffix \<noteq> [] \<and> ends_with name suffix then take (length name - length suffix) name
      else name)"

text \<open>
  \<^verbatim>\<open>readMarkdownFile\<close>: the file is read (\<open>readFile\<close> stands for \<^verbatim>\<open>fs.readFile\<close> on the
  joined path), split by the front-matter parser (\<open>matter\<close>, the gray-matter package),
  and named after its source file.
\<close>

definition readMarkdownFile ::
  "(string \<Rightarrow> string \<Rightarrow> error + string) \<Rightarrow> (string \<Rightarrow> error + jsobj \<times> string) \<Rightarrow>
   string \<Rightarrow> string \<Rightarrow> error + page" where
  "readMarkdownFile readFile matter folder file =
     and_then (readFile folder file) (\<lambda>fileContent.
       and_then (matter fileContent) (\<lambda>(d, c).
         Inr \<lparr>data = d, content = c, fileName = basename file ''.mdx'' @ ''.html''\<rparr>))"

text \<open>The first two stages of the build: keep the \<^verbatim>\<open>.mdx\<close> entries, read each one.\<close>

definition loadPages ::
  "(string \<Rightarrow> string \<Rightarrow> error + string) \<Rightarrow> (string \<Rightarrow> error + jsobj \<times> string) \<Rightarrow>
   string \<Rightarrow> string list \<Rightarrow> error + page list" where
  "loadPages readFile matter inputFolder files =
     map_all (readMarkdownFile readFile matter inputFolder)
       (filter (\<lambda>file. extname file = ''.mdx'') files)"

subsection \<open>The template expander\<close>

definition startsWith :: "string \<Rightarrow> string \<Rightarrow> bool" where
  "startsWith s prefix = (take (length prefix) s = prefix)"

definition is_template :: "page \<Rightarrow> bool" where
  "is_template p = startsWith (fileName p) ''[''"

text \<open>\<^verbatim>\<open>{...obj}\<close> copies the own properties in \<^verbatim>\<open>Object.keys\<close> order.\<close>

definition spread :: "jsobj \<Rightarrow> jsobj" where
  "spread obj = map (\<lambda>k. (k, js_index obj k)) (object_keys obj)"

text \<open>
  One derived page: the object literal that the callback of \<^verbatim>\<open>Object.keys(icons).map\<close>
  builds from the template page and the catalog key.
\<close>

definition iconPage :: "jsobj \<Rightarrow> page \<Rightarrow> string \<Rightarrow> page" where
  "iconPage icons templatePage icon =
     \<lparr>data = AList.update ''icon'' (js_index icons icon)
              (AList.update ''title'' (Str icon) (spread (data templatePage))),
      content = content templatePage,
      fileName = icon @ ''.html''\<rparr>"

text \<open>
  The expansion step. \<^verbatim>\<open>pages.find\<close> answers \<^verbatim>\<open>undefined\<close> when no page matches, and
  the callback then throws a TypeError on \<^verbatim>\<open>templatePage.data\<close>; with an empty catalog
  the callback never runs.
\<close>

definition expandPages :: "jsobj \<Rightarrow> page list \<Rightarrow> error + page list" where
  "expandPages icons pages =
     (let templatePage = List.find is_template pages
      in and_then
           (map_all
              (\<lambda>icon. case templatePage of
                         None \<Rightarrow> Inl TypeError
                       | Some t \<Rightarrow> Inr (iconPage icons t icon))
              (object_keys icons))
           (\<lambda>iconsPages. Inr (filter (\<lambda>p. \<not> is_template p) pages @ iconsPages)))"

section \<open>Conversions\<close>

text \<open>\<^verbatim>\<open>ToBoolean\<close>, as the conditional operator and \<^verbatim>\<open>if\<close> apply it.\<close>

fun truthy :: "jsval \<Rightarrow> bool" where
  "truthy Undefined = False"
| "truthy Null = False"
| "truthy (Bool b) = b"
| "truthy (Num n) = (n \<noteq> ''0'' \<and> n \<noteq> ''NaN'')"
| "truthy (Str s) = (s \<noteq> [])"
| "truthy (Arr xs) = True"
| "truthy (Obj ps) = True"
| "truthy (Native k) = True"

fun sequence :: "(error + 'a) list \<Rightarrow> error + 'a list" where
  "sequence [] = Inr []"
| "sequence (r # rs) =
     (case r of
        Inl e \<Rightarrow> Inl e
      | Inr x \<Rightarrow> (case sequence rs of Inl e \<Rightarrow> Inl e | Inr xs \<Rightarrow> Inr (x # xs)))"

fun join :: "string \<Rightarrow> string list \<Rightarrow> string" where
  "join sep [] = []"
| "join sep [s] = s"
| "join sep (s # t # ss) = s @ sep @ join sep (t # ss)"

text \<open>
  \<^verbatim>\<open>ToString\<close>, as a template literal and a computed property key apply it. A number
  prints as the text that carries it; an array joins its elements with commas,
  \<^verbatim>\<open>undefined\<close> and \<^verbatim>\<open>null\<close> elements printing as nothing; a plain object prints through
  \<^verbatim>\<open>Object.prototype.toString\<close>, and one whose own \<^verbatim>\<open>toString\<close> property holds data has no
  primitive value, which is a TypeError.
\<close>

fun to_string :: "jsval \<Rightarrow> error + string" where
  "to_string Undefined = Inr ''undefined''"
| "to_string Null = Inr ''null''"
| "to_string (Bool b) = Inr (if b then ''true'' else ''false'')"
| "to_string (Num n) = Inr n"
| "to_string (Str s) = Inr s"
| "to_string (Arr xs) =
     and_then
       (sequence (map (\<lambda>x. if x = Undefined \<or> x = Null then Inr [] else to_string x) xs))
       (\<lambda>parts. Inr (join '','' parts))"
| "to_string (Obj ps) =
     (case map_of ps ''toString'' of
        None \<Rightarrow> Inr ''[object Object]''
      | Some v \<Rightarrow> Inl TypeError)"
| "to_string (Native k) =
     Inr (if k = ''__proto__'' then ''[object Object]''
          else ''function '' @ (if k = ''constructor'' then ''Object'' else k) @
               ''() { [native code] }'')"

section \<open>Components\<close>

text \<open>The props of a code block: its language tag and its text.\<close>

record codeblock_props =
  language :: jsval
  children :: string

text \<open>The four entries of \<^verbatim>\<open>pageComponents\<close> that only restyle a tag.\<close>

datatype styled = H1 | H2 | Paragraph | Code

text \<open>
  A React element tree. A host element has a tag, props and children; a child can also
  be a text or a value placed by an expression container. The other nodes are elements
  whose type is a component and which only the renderer opens: the compiled page body
  (\<open>Compiled\<close>), an element of one of the restyling entries of \<^verbatim>\<open>pageComponents\<close> with
  its children, a fragment, an \<^verbatim>\<open>Icon\<close> element with its props, and a \<^verbatim>\<open>CodeBlock\<close>
  element with its props.
\<close>

datatype 'e node =
    Element string "(string \<times> jsval) list" "'e node list"
  | Text string
  | Expr jsval
  | Compiled 'e
  | Styled styled "'e node list"
  | Fragment "'e node list"
  | IconElement jsobj
  | CodeBlockElement codeblock_props

subsection \<open>The icon component\<close>

definition Icon :: "jsobj \<Rightarrow> string \<Rightarrow> error + 'e node" where
  "Icon icons icon =
     and_then (get_member (js_index icons icon) ''path'') (\<lambda>d.
       Inr (Element ''svg''
              [(''xmlns'', Str ''http-//www.w3.org/2000/svg''), (''width'', Str ''1em''),
               (''height'', Str ''1em''), (''viewBox'', Str ''0 0 24 24'')]
              [Element ''path''
                 [(''d'', d), (''fill'', Str ''none''), (''strokeWidth'', Str ''2''),
                  (''stroke'', Str ''currentColor''), (''strokeLinecap'', Str ''round''),
                  (''strokeLinejoin'', Str ''round'')]
                 []]))"

subsection \<open>The code-block component\<close>

text \<open>
  \<open>highlight code language\<close> stands for \<^verbatim>\<open>hljs.highlight(code, {language}).value\<close> of the
  highlight.js package, which throws on a language it does not know.
\<close>

definition CodeBlock ::
  "(string \<Rightarrow> jsval \<Rightarrow> error + string) \<Rightarrow> codeblock_props \<Rightarrow> error + 'e node" where
  "CodeBlock highlight props =
     (let className =
            ''p-4 rounded-md bg-gray-900 text-white overflow-auto mb-8 text-sm font-mono''
      in if truthy (language props)
         then and_then (highlight (children props) (language props)) (\<lambda>html.
                Inr (Element ''pre''
                       [(''className'', Str className),
                        (''dangerouslySetInnerHTML'', Obj [(''__html'', Str html)])]
                       []))
         else Inr (Element ''pre'' [(''className'', Str className)] [Text (children props)]))"


abbreviation highlighted_pre :: "string \<Rightarrow> 'e node" where
  "highlighted_pre html \<equiv>
     Element ''pre''
       [(''className'', Str ''p-4 rounded-md bg-gray-900 text-white overflow-auto mb-8 text-sm font-mono''),
        (''dangerouslySetInnerHTML'', Obj [(''__html'', Str html)])]
       []"

abbreviation verbatim_pre :: "string \<Rightarrow> 'e node" where
  "verbatim_pre code \<equiv>
     Element ''pre''
       [(''className'', Str ''p-4 rounded-md bg-gray-900 text-white overflow-auto mb-8 text-sm font-mono'')]
       [Text code]"

subsection \<open>The component table\<close>

text \<open>
  \<^verbatim>\<open>pageComponents\<close>: what the entries \<^verbatim>\<open>h1\<close>, \<^verbatim>\<open>h2\<close>, \<^verbatim>\<open>p\<close> and \<^verbatim>\<open>code\<close> return for
  their children, and the entry \<^verbatim>\<open>Icon\<close>, which hands its props to the icon component;
  \<^verbatim>\<open>icons[props.icon]\<close> turns the prop into a property key. The entry \<^verbatim>\<open>CodeBlock\<close> is the
  code-block component itself and \<^verbatim>\<open>Fragment\<close> is React's.
\<close>

fun pageComponents_styled :: "styled \<Rightarrow> 'e node list \<Rightarrow> 'e node" where
  "pageComponents_styled H1 kids =
     Element ''h1'' [(''className'', Str ''mt-8 mb-4 text-gray-800 text-2xl font-bold'')] kids"
| "pageComponents_styled H2 kids =
     Element ''h2'' [(''className'', Str ''mt-8 mb-4 text-gray-800 text-xl font-bold'')] kids"
| "pageComponents_styled Paragraph kids =
     Element ''p'' [(''className'', Str ''mt-6 mb-6'')] kids"
| "pageComponents_styled Code kids =
     Element ''code'' [(''className'', Str ''font-bold text-sm font-mono'')]
       (Text [CHR 0x27] # kids @ [Text [CHR 0x27]])"

definition pageComponents_Icon :: "jsobj \<Rightarrow> jsobj \<Rightarrow> error + 'e node" where
  "pageComponents_Icon icons props = and_then (to_string (js_index props ''icon'')) (Icon icons)"

subsection \<open>What the serializer writes for a code block\<close>

text \<open>
  \<^verbatim>\<open>renderToStaticMarkup\<close> on the two elements the code-block component returns: the
  \<^verbatim>\<open>className\<close> prop becomes the \<^verbatim>\<open>class\<close> attribute, a text child is written escaped,
  the \<^verbatim>\<open>__html\<close> of \<^verbatim>\<open>dangerouslySetInnerHTML\<close> is written as it is, and a \<^verbatim>\<open>pre\<close> whose
  content starts with a newline gets one more in front. Any other element is outside
  this function.
\<close>

definition escapeHtml :: "string \<Rightarrow> string" where
  "escapeHtml s =
     concat (map (\<lambda>c. if c = CHR 0x22 then ''&quot;''
                       else if c = CHR ''&'' then ''&amp;''
                       else if c = CHR 0x27 then ''&#x27;''
                       else if c = CHR ''<'' then ''&lt;''
                       else if c = CHR ''>'' then ''&gt;''
                       else [c]) s)"

definition leadingNewline :: "string \<Rightarrow> string" where
  "leadingNewline s = (case s of [] \<Rightarrow> [] | c # cs \<Rightarrow> if c = CHR 0x0A then [CHR 0x0A] else [])"

definition pre_tag :: "string \<Rightarrow> string \<Rightarrow> string" where
  "pre_tag cls inner =
     ''<pre class='' @ [CHR 0x22] @ escapeHtml cls @ [CHR 0x22] @ ''>'' @ inner @ ''</pre>''"

fun inner_html :: "jsval \<Rightarrow> string option" where
  "inner_html (Obj ps) = (case map_of ps ''__html'' of Some (Str h) \<Rightarrow> Some h | _ \<Rightarrow> None)"
| "inner_html v = None"

definition staticMarkup_pre :: "'e node \<Rightarrow> string option" where
  "staticMarkup_pre n =
     (case n of
        Element tag props kids \<Rightarrow>
          if tag = ''pre'' \<and> set (map fst props) \<subseteq> {''className'', ''dangerouslySetInnerHTML''}
          then (case map_of props ''className'' of
                  Some (Str cls) \<Rightarrow>
                    (case map_of props ''dangerouslySetInnerHTML'' of
                       Some v \<Rightarrow>
                         (case inner_html v of
                            Some h \<Rightarrow> if kids = [] then Some (pre_tag cls (leadingNewline h @ h))
                                      else None
                          | None \<Rightarrow> None)
                     | None \<Rightarrow>
                         (case kids of
                            [Text t] \<Rightarrow> Some (pre_tag cls (leadingNewline t @ escapeHtml t))
                          | _ \<Rightarrow> None))
                | _ \<Rightarrow> None)
          else None
      | _ \<Rightarrow> None)"

subsection \<open>The page shell\<close>

record build_time =
  formatted :: string

record build_info =
  time :: build_time

text \<open>The page handed to the shell is \<^verbatim>\<open>{...page, element}\<close>.\<close>

record 'e shell_page = page +
  element :: "'e node"

record 'e shell_props =
  props_page :: "'e shell_page"
  props_pages :: "page list"
  props_buildInfo :: build_info

text \<open>
  \<^verbatim>\<open>PageWrapper\<close>. \<open>pkg\<close> is the parsed \<^verbatim>\<open>package.json\<close>. The document title and the
  footer link read through values that may be missing, so the shell can throw.
\<close>

definition PageWrapper :: "jsobj \<Rightarrow> 'e shell_props \<Rightarrow> error + 'e node" where
  "PageWrapper pkg props =
     (let title = js_index (data (props_page props)) ''title''
      in and_then (if truthy title then and_then (to_string title) (\<lambda>t. Inr (t @ '' - ''))
                   else Inr []) (\<lambda>titlePrefix.
         and_then (to_string (js_index pkg ''version'')) (\<lambda>version.
         and_then (get_member (js_index pkg ''repository'') ''url'') (\<lambda>repositoryUrl.
           Inr (Element ''html'' [(''lang'', Str ''en'')]
             [Element ''head'' []
                [Element ''meta'' [(''charSet'', Str ''utf-8'')] [],
                 Element ''meta''
                   [(''name'', Str ''viewport''),
                    (''content'', Str ''width=device-width, initial-scale=1, shrink-to-fit=no, user-scalable=no'')] [],
                 Element ''meta'' [(''name'', Str ''title''), (''content'', Str ''josemi/icons'')] [],
                 Element ''meta''
                   [(''name'', Str ''description''),
                    (''content'', Str ''Enhance your projects with beautifully crafted SVG icons.'')] [],
                 Element ''meta''
                   [(''property'', Str ''og:site_name''), (''content'', Str ''josemi/icons'')] [],
                 Element ''meta''
                   [(''property'', Str ''og:title''), (''content'', Str ''josemi/icons'')] [],
                 Element ''meta'' [(''property'', Str ''og:type''), (''content'', Str ''website'')] [],
                 Element ''meta''
                   [(''property'', Str ''og:url''), (''content'', Str ''https://icons.josemi.xyz'')] [],
                 Element ''meta''
                   [(''property'', Str ''og:image''),
                    (''content'', Str ''https://icons.josemi.xyz/og.png'')] [],
                 Element ''meta''
                   [(''property'', Str ''og:image:width''), (''content'', Str ''1200'')] [],
                 Element ''meta''
                   [(''property'', Str ''og:image:height''), (''content'', Str ''630'')] [],
                 Element ''meta''
                   [(''property'', Str ''og:image:alt''), (''content'', Str ''josemi/icons'')] [],
                 Element ''meta''
                   [(''property'', Str ''description''),
                    (''content'', Str ''Enhance your projects with beautifully crafted SVG icons.'')] [],
                 Element ''meta''
                   [(''name'', Str ''twitter:card''), (''content'', Str ''summary_large_image'')] [],
                 Element ''meta''
                   [(''name'', Str ''twitter:author''), (''content'', Str ''@jmjuanes'')] [],
                 Element ''meta''
                   [(''name'', Str ''twitter:title''), (''content'', Str ''josemi/icons'')] [],
                 Element ''meta''
                   [(''name'', Str ''twitter:description''),
                    (''content'', Str ''Enhance your projects with beautifully crafted SVG icons.'')] [],
                 Element ''meta''
                   [(''name'', Str ''twitter:image''),
                    (''content'', Str ''https://icons.josemi.xyz/og.png'')] [],
                 Element ''link''
                   [(''rel'', Str ''stylesheet''),
                    (''href'', Str ''https://fonts.googleapis.com/css2?family=Inter:wght@400;500;700;900&display=swap'')] [],
                 Element ''link'' [(''rel'', Str ''stylesheet''), (''href'', Str ''./low.css'')] [],
                 Element ''link''
                   [(''rel'', Str ''stylesheet''), (''href'', Str ''./highlight.css'')] [],
                 Element ''title'' [] [Text (titlePrefix @ '' josemi/icons '' @ version)]],
              Element ''body''
                [(''className'', Str ''bg-white m-0 p-0 font-inter text-gray-800 leading-normal'')]
                [Element ''div'' [(''className'', Str ''border-b-1 border-gray-300 relative'')]
                   [Element ''div''
                      [(''className'', Str ''w-full maxw-7xl h-20 px-6 mx-auto flex items-center justify-between'')]
                      [Element ''a''
                         [(''href'', Str ''./index.html''),
                          (''className'', Str ''flex items-center gap-2 text-gray-800 no-underline'')]
                         [Element ''div'' [(''className'', Str ''font-bold flex items-center'')]
                            [Element ''span'' [] [Text ''josemi/''],
                             Element ''span'' [(''className'', Str ''text-gray-500'')] [Text ''icons'']],
                          Element ''div''
                            [(''className'', Str ''flex items-center font-bold text-2xs bg-gray-200 px-2 py-1 rounded-lg'')]
                            [Element ''span'' [] [Text ''v'', Expr (js_index pkg ''version'')]]],
                       Element ''div'' [(''className'', Str ''flex flex-row gap-6 items-center'')]
                         [Element ''a''
                            [(''href'', js_index pkg ''repository''),
                             (''className'', Str ''no-underline o-70 hover:o-100'')]
                            [Element ''img''
                               [(''className'', Str ''w-6 h-6''), (''src'', Str ''./github.svg'')] []]]]],
                 Element ''div'' [(''className'', Str ''w-full maxw-7xl mx-auto px-6'')]
                   [element (props_page props)],
                 Element ''div'' [(''className'', Str ''w-full maxw-7xl mx-auto px-6 pt-10 pb-20'')]
                   [Element ''div'' [(''className'', Str ''mb-12 border-t-1 border-gray-300'')] [],
                    Element ''div'' [(''className'', Str ''text-center text-sm mb-2'')]
                      [Text ''Designed by '',
                       Element ''a''
                         [(''href'', Str ''https://josemi.xyz''),
                          (''className'', Str ''no-underline text-gray-800 hover:text-gray-700 font-bold'')]
                         [Text ''Josemi''],
                       Text ''. The source code is available on '',
                       Element ''a''
                         [(''href'', repositoryUrl),
                          (''className'', Str ''no-underline text-gray-800 hover:text-gray-700 font-bold'')]
                         [Text ''GitHub''],
                       Text ''.''],
                    Element ''div'' [(''className'', Str ''text-center text-sm'')]
                      [Element ''div'' []
                         [Text ''Last built on '',
                          Text (formatted (time (props_buildInfo props))),
                          Text ''.'']]]]])))))"

subsection \<open>Rendering one page\<close>

text \<open>
  The props of the compiled page body (its \<^verbatim>\<open>components\<close> prop is the table above, which
  the renderer consults), and the element made of the compiled body and these props.
  A compiled body is a function from its props to a tree, as \<^verbatim>\<open>mdx.evaluate\<close> returns.
\<close>

record mdx_props =
  mdx_page :: page
  mdx_icons :: "jsval list"
  mdx_version :: jsval
  mdx_repository :: jsval
  mdx_downloadUrl :: string

record compiled_element =
  compiled_component :: "mdx_props \<Rightarrow> error + unit node"
  compiled_props :: mdx_props

text \<open>
  React's rendering of components: an element whose type is a component is replaced by
  what the component returns for its props, and what a component throws leaves the
  renderer. The restyling entries place their children unchanged and never throw, so
  their children are rendered first. \<open>run\<close> renders a compiled page body.
\<close>

fun renderComponents ::
  "(string \<Rightarrow> jsval \<Rightarrow> error + string) \<Rightarrow> jsobj \<Rightarrow> ('e \<Rightarrow> error + unit node) \<Rightarrow>
   'e node \<Rightarrow> error + unit node" where
  "renderComponents highlight icons run (Element tag props kids) =
     and_then (sequence (map (renderComponents highlight icons run) kids)) (\<lambda>ks.
       Inr (Element tag props ks))"
| "renderComponents highlight icons run (Text s) = Inr (Text s)"
| "renderComponents highlight icons run (Expr v) = Inr (Expr v)"
| "renderComponents highlight icons run (Compiled e) = run e"
| "renderComponents highlight icons run (Styled c kids) =
     and_then (sequence (map (renderComponents highlight icons run) kids)) (\<lambda>ks.
       Inr (pageComponents_styled c ks))"
| "renderComponents highlight icons run (Fragment kids) =
     and_then (sequence (map (renderComponents highlight icons run) kids)) (\<lambda>ks.
       Inr (Fragment ks))"
| "renderComponents highlight icons run (IconElement props) = pageComponents_Icon icons props"
| "renderComponents highlight icons run (CodeBlockElement props) = CodeBlock highlight props"

text \<open>
  \<^verbatim>\<open>renderToStaticMarkup\<close>: the components are run, the compiled page body where the shell
  placed it, and the tree of host elements that is left is written out by \<open>serialize\<close>,
  the part of react-dom that is a parameter here. A compiled body holds no compiled
  element of its own.
\<close>

definition renderToStaticMarkup ::
  "(unit node \<Rightarrow> error + string) \<Rightarrow> (string \<Rightarrow> jsval \<Rightarrow> error + string) \<Rightarrow> jsobj \<Rightarrow>
   compiled_element node \<Rightarrow> error + string" where
  "renderToStaticMarkup serialize highlight icons tree =
     and_then
       (renderComponents highlight icons
          (\<lambda>e. and_then (compiled_component e (compiled_props e))
                  (renderComponents highlight icons (\<lambda>u. Inr (Fragment []))))
          tree)
       serialize"

text \<open>
  The first two steps of a page's build chain: \<open>evaluate\<close> stands for \<^verbatim>\<open>mdx.evaluate\<close>.
  The renderer runs the shell. Nothing in the chain catches a failure.
\<close>

definition renderPage ::
  "(string \<Rightarrow> error + (mdx_props \<Rightarrow> error + unit node)) \<Rightarrow> (unit node \<Rightarrow> error + string) \<Rightarrow>
   (string \<Rightarrow> jsval \<Rightarrow> error + string) \<Rightarrow>
   jsobj \<Rightarrow> jsobj \<Rightarrow> build_info \<Rightarrow> page list \<Rightarrow> page \<Rightarrow> error + string" where
  "renderPage evaluate serialize highlight pkg icons buildInfo pages p =
     and_then (evaluate (content p)) (\<lambda>pageComponent.
     and_then (get_member (js_index pkg ''repository'') ''url'') (\<lambda>repositoryUrl.
     and_then (to_string repositoryUrl) (\<lambda>repositoryText.
     and_then (to_string (js_index pkg ''version'')) (\<lambda>versionText.
       and_then
         (PageWrapper pkg
            \<lparr>props_page =
               \<lparr>data = data p, content = content p, fileName = fileName p,
                element =
                  Compiled
                    \<lparr>compiled_component = pageComponent,
                     compiled_props =
                       \<lparr>mdx_page = p,
                        mdx_icons = map (js_index icons) (object_keys icons),
                        mdx_version = js_index pkg ''version'',
                        mdx_repository = repositoryUrl,
                        mdx_downloadUrl =
                          repositoryText @ ''/releases/download/v'' @ versionText @
                          ''/icons.zip''\<rparr>\<rparr>\<rparr>,
             props_pages = pages,
             props_buildInfo = buildInfo\<rparr>)
         (renderToStaticMarkup serialize highlight icons)))))"



section \<open>Sample inputs\<close>

text \<open>
  A small catalog, a template page, two ordinary pages (one of them named like a catalog
  entry), and a catalog whose keys are numerals declared in descending order.
\<close>

definition sample_icons :: jsobj where
  "sample_icons =
     [(''star'', Obj [(''path'', Str ''M12 2 L15 9'')]),
      (''heart'', Obj [(''path'', Str ''M12 21 C4 14'')])]"

definition numeral_icons :: jsobj where
  "numeral_icons =
     [(''2'', Obj [(''path'', Str ''M2 2'')]), (''1'', Obj [(''path'', Str ''M1 1'')])]"

definition sample_template :: page where
  "sample_template =
     \<lparr>data = [(''layout'', Str ''icon''), (''title'', Str ''placeholder'')],
      content = ''<Icon icon={props.page.title} />'',
      fileName = ''[slug].html''\<rparr>"

definition second_template :: page where
  "second_template =
     \<lparr>data = [(''layout'', Str ''other'')], content = ''unused'', fileName = ''[other].html''\<rparr>"

definition sample_guide :: page where
  "sample_guide = \<lparr>data = [(''title'', Str ''Guide'')], content = ''# Guide'', fileName = ''guide.html''\<rparr>"

definition sample_star :: page where
  "sample_star = \<lparr>data = [], content = ''# Star'', fileName = ''star.html''\<rparr>"

definition bracket_icons :: jsobj where
  "bracket_icons = [(''[slug]'', Obj [])]"

definition bracket_x_icons :: jsobj where
  "bracket_x_icons = [(''[x'', Obj [(''path'', Str ''M0 0'')])]"

definition self_template :: page where
  "self_template =
     \<lparr>data = [(''title'', Str ''[slug]''), (''icon'', Obj [])], content = ''# Icon'',
      fileName = ''[slug].html''\<rparr>"

text \<open>
  Stand-ins for the libraries: a file system that holds a one-line body for every name, a
  front-matter parser that finds no header, a highlighter that knows one language (it
  marks a leading \<^verbatim>\<open>let\<close>, escapes the rest, and throws on any other language, as
  highlight.js does on a language that is not registered), a page compiler that reads
  the body as the key of one icon inside a paragraph, and a serializer that keeps the
  text children.
\<close>

definition sample_readFile :: "string \<Rightarrow> string \<Rightarrow> error + string" where
  "sample_readFile folder file = Inr (''# '' @ file)"

definition sample_matter :: "string \<Rightarrow> error + jsobj \<times> string" where
  "sample_matter fileContent = Inr ([], fileContent)"

definition sample_highlight :: "string \<Rightarrow> jsval \<Rightarrow> error + string" where
  "sample_highlight code lang =
     (if lang = Str ''javascript''
      then Inr (if take 4 code = ''let '' then ''<b>let</b> '' @ escapeHtml (drop 4 code)
                else escapeHtml code)
      else Inl HighlightError)"









section \<open>Facts about the helpers\<close>

lemma map_all_Inr: "map_all (\<lambda>x. Inr (f x)) xs = Inr (map f xs)"
  by (induction xs) simp_all

lemma map_all_Inl: "map_all (\<lambda>x. Inl e) xs = (if xs = [] then Inr [] else Inl e)"
  by (cases xs) simp_all

lemma map_all_list_all2:
  "map_all f xs = Inr ys \<Longrightarrow> list_all2 (\<lambda>x y. f x = Inr y) xs ys"
  by (induction xs arbitrary: ys) (auto split: sum.splits)

lemma length_object_keys: "length (object_keys obj) = length obj"
proof -
  have "length (filter array_index (map fst obj)) +
        length (filter (\<lambda>k. \<not> array_index k) (map fst obj)) = length (map fst obj)"
    by (rule sum_length_filter_compl)
  then show ?thesis by (simp add: object_keys_def Let_def)
qed

lemma set_object_keys: "set (object_keys obj) = fst ` set obj"
  by (auto simp: object_keys_def Let_def)

lemma distinct_object_keys: "distinct (map fst obj) \<Longrightarrow> distinct (object_keys obj)"
  by (auto simp: object_keys_def Let_def distinct_map_filter)

lemma object_keys_plain:
  "list_all (\<lambda>k. \<not> array_index k) (map fst obj) \<Longrightarrow> object_keys obj = map fst obj"
  by (simp add: object_keys_def Let_def list_all_iff filter_empty_conv[THEN iffD2]
      filter_id_conv[THEN iffD2])

lemma js_index_own: "distinct (map fst obj) \<Longrightarrow> (k, v) \<in> set obj \<Longrightarrow> js_index obj k = v"
  by (simp add: js_index_def)

lemma map_of_spread: "map_of (spread obj) k = map_of obj k"
proof (cases "map_of obj k")
  case None
  then have "k \<notin> set (object_keys obj)"
    by (simp add: set_object_keys map_of_eq_None_iff)
  then have "map_of (spread obj) k = None"
    by (simp add: spread_def map_of_eq_None_iff image_image)
  with None show ?thesis by simp
next
  case (Some v)
  then have "k \<in> set (object_keys obj)"
    by (simp add: set_object_keys) (metis map_of_eq_None_iff option.distinct(1))
  then have "map_of (spread obj) k = Some (js_index obj k)"
    by (simp add: spread_def map_of_map_restrict)
  with Some show ?thesis by (simp add: js_index_def)
qed

subsection \<open>Derived pages\<close>

lemma iconPage_title: "map_of (data (iconPage icons t n)) ''title'' = Some (Str n)"
  by (simp add: iconPage_def update_conv')

lemma iconPage_icon: "map_of (data (iconPage icons t n)) ''icon'' = Some (js_index icons n)"
  by (simp add: iconPage_def update_conv')

lemma iconPage_other:
  "k \<noteq> ''title'' \<Longrightarrow> k \<noteq> ''icon'' \<Longrightarrow>
   map_of (data (iconPage icons t n)) k = map_of (data t) k"
  by (simp add: iconPage_def update_conv' map_of_spread)

lemma iconPage_content: "content (iconPage icons t n) = content t"
  by (simp add: iconPage_def)

lemma iconPage_fileName: "fileName (iconPage icons t n) = n @ ''.html''"
  by (simp add: iconPage_def)

subsection \<open>The expansion step, by cases on the template\<close>

lemma expandPages_template:
  "List.find is_template pages = Some t \<Longrightarrow>
   expandPages icons pages =
     Inr (filter (\<lambda>p. \<not> is_template p) pages @ map (iconPage icons t) (object_keys icons))"
  by (simp add: expandPages_def map_all_Inr)

lemma expandPages_no_template:
  assumes "List.find is_template pages = None"
  shows "expandPages icons pages = (if icons = [] then Inr pages else Inl TypeError)"
proof -
  from assms have f: "filter (\<lambda>p. \<not> is_template p) pages = pages"
    by (simp add: find_None_iff filter_id_conv)
  have "object_keys icons = [] \<longleftrightarrow> icons = []"
    using length_object_keys[of icons] by (metis length_0_conv)
  with assms f show ?thesis
    by (simp add: expandPages_def map_all_Inl)
qed

lemma find_first:
  "\<forall>p\<in>set pre. \<not> P p \<Longrightarrow> P t \<Longrightarrow> List.find P (pre @ t # post) = Some t"
  by (induction pre) simp_all

lemma one_template_find:
  assumes "length (filter P pages) = 1"
  shows "\<exists>t. List.find P pages = Some t"
proof (cases "List.find P pages")
  case None
  then have "filter P pages = []"
    by (simp add: find_None_iff filter_empty_conv)
  with assms show ?thesis by simp
next
  case (Some a)
  then show ?thesis by blast
qed

subsection \<open>The loader\<close>

lemma extname_mdx:
  assumes "extname f = ''.mdx''"
  shows "\<exists>stem. stem \<noteq> [] \<and> f = stem @ ''.mdx''"
proof -
  define after where "after = takeWhile (\<lambda>c. c \<noteq> CHR ''.'') (rev f)"
  define startDot where "startDot = length f - length after - 1"
  from assms have d: "drop startDot f = ''.mdx''" and nz: "startDot \<noteq> 0"
    by (auto simp: extname_def Let_def after_def startDot_def split: if_splits)
  have "f = take startDot f @ drop startDot f" by simp
  with d have "f = take startDot f @ ''.mdx''" by simp
  moreover have "take startDot f \<noteq> []"
  proof
    assume "take startDot f = []"
    with nz have "f = []" by simp
    with d show False by simp
  qed
  ultimately show ?thesis by blast
qed

lemma basename_mdx: "basename (stem @ ''.mdx'') ''.mdx'' = stem"
  by (simp add: basename_def ends_with_def)

lemma readMarkdownFile_fileName:
  "readMarkdownFile readFile matter folder f = Inr p \<Longrightarrow>
   fileName p = basename f ''.mdx'' @ ''.html''"
  by (cases "readFile folder f"; cases "matter (projr (readFile folder f))")
     (auto simp: readMarkdownFile_def split: prod.splits)

lemma loadPages_named:
  assumes "loadPages readFile matter folder files = Inr pages"
  shows "list_all2
           (\<lambda>f p. \<exists>stem. stem \<noteq> [] \<and> f = stem @ ''.mdx'' \<and> fileName p = stem @ ''.html'')
           (filter (\<lambda>f. extname f = ''.mdx'') files) pages"
proof -
  have "list_all2 (\<lambda>f p. readMarkdownFile readFile matter folder f = Inr p)
          (filter (\<lambda>f. extname f = ''.mdx'') files) pages"
    using assms unfolding loadPages_def by (rule map_all_list_all2)
  then show ?thesis
  proof (rule list.rel_mono_strong)
    fix f p
    assume "f \<in> set (filter (\<lambda>f. extname f = ''.mdx'') files)"
      and r: "readMarkdownFile readFile matter folder f = Inr p"
    then obtain stem where s: "stem \<noteq> []" "f = stem @ ''.mdx''"
      using extname_mdx by auto
    with readMarkdownFile_fileName[OF r] have "fileName p = stem @ ''.html''"
      by (simp add: basename_mdx)
    with s show "\<exists>stem. stem \<noteq> [] \<and> f = stem @ ''.mdx'' \<and> fileName p = stem @ ''.html''"
      by blast
  qed
qed

text \<open>Distinct directory entries load into pages with distinct output names.\<close>

lemma loadPages_distinct:
  assumes "loadPages readFile matter folder files = Inr pages" and "distinct files"
  shows "distinct (map fileName pages)"
proof -
  let ?fs = "filter (\<lambda>f. extname f = ''.mdx'') files"
  let ?R = "\<lambda>f p. \<exists>stem. stem \<noteq> [] \<and> f = stem @ ''.mdx'' \<and> fileName p = stem @ ''.html''"
  have R: "list_all2 ?R ?fs pages" using assms(1) by (rule loadPages_named)
  have len: "length ?fs = length pages" using R by (rule list_all2_lengthD)
  have d: "distinct ?fs" using assms(2) by simp
  show ?thesis
  proof (unfold distinct_conv_nth, intro allI impI)
    fix i j
    assume ij: "i < length (map fileName pages)" "j < length (map fileName pages)" "i \<noteq> j"
    then have i: "i < length pages" and j: "j < length pages" by simp_all
    from R i obtain si where si: "?fs ! i = si @ ''.mdx''" "fileName (pages ! i) = si @ ''.html''"
      by (auto simp: list_all2_conv_all_nth)
    from R j obtain sj where sj: "?fs ! j = sj @ ''.mdx''" "fileName (pages ! j) = sj @ ''.html''"
      by (auto simp: list_all2_conv_all_nth)
    from d ij(3) i j len have "?fs ! i \<noteq> ?fs ! j"
      by (simp add: nth_eq_iff_index_eq)
    with si sj have "si \<noteq> sj" by auto
    with si sj i j show "map fileName pages ! i \<noteq> map fileName pages ! j" by simp
  qed
qed

subsection \<open>The render chain\<close>

lemma and_then_Inr_iff: "and_then r f = Inr y \<longleftrightarrow> (\<exists>x. r = Inr x \<and> f x = Inr y)"
  by (cases r) simp_all







text \<open>
  No step of the chain catches a failure: a failing compiler fails the page, a page whose
  compiled body holds an icon element that throws fails, and a page that yields markup
  got it from the serializer.
\<close>

lemma renderPage_evaluate_fails:
  "evaluate (content p) = Inl e \<Longrightarrow>
   renderPage evaluate serialize highlight pkg icons buildInfo pages p = Inl e"
  by (simp add: renderPage_def)


lemma renderPage_markup_from_serialize:
  assumes "renderPage evaluate serialize highlight pkg icons buildInfo pages p = Inr markup"
  shows "\<exists>tree. serialize tree = Inr markup"
  using assms unfolding renderPage_def renderToStaticMarkup_def and_then_Inr_iff by blast

text \<open>
  The other pages of the build reach the shell as a prop it never reads: a page's markup
  does not depend on them.
\<close>

lemma renderPage_pages:
  "renderPage evaluate serialize highlight pkg icons buildInfo pages1 p =
   renderPage evaluate serialize highlight pkg icons buildInfo pages2 p"
  by (simp add: renderPage_def PageWrapper_def)


subsection \<open>The serialized code block\<close>

lemma leadingNewline_escapeHtml: "leadingNewline (escapeHtml t) = leadingNewline t"
  by (cases t) (auto simp: leadingNewline_def escapeHtml_def)

lemma leadingNewline_cases:
  "leadingNewline s = [] \<and> (s = [] \<or> hd s \<noteq> CHR 0x0A) \<or>
   leadingNewline s = [CHR 0x0A] \<and> s \<noteq> [] \<and> hd s = CHR 0x0A"
  by (cases s) (auto simp: leadingNewline_def)

lemma pre_inner_eq_iff:
  "leadingNewline h @ h = leadingNewline t @ escapeHtml t \<longleftrightarrow> h = escapeHtml t"
proof
  assume "h = escapeHtml t"
  then show "leadingNewline h @ h = leadingNewline t @ escapeHtml t"
    by (simp add: leadingNewline_escapeHtml)
next
  assume eq: "leadingNewline h @ h = leadingNewline t @ escapeHtml t"
  let ?e = "escapeHtml t"
  have le: "leadingNewline t = leadingNewline ?e" by (simp add: leadingNewline_escapeHtml)
  from leadingNewline_cases[of h] leadingNewline_cases[of ?e] eq le
  show "h = escapeHtml t"
    by (cases h; cases ?e) auto
qed

lemma staticMarkup_highlighted:
  "staticMarkup_pre (highlighted_pre html :: 'e node) =
     Some (pre_tag ''p-4 rounded-md bg-gray-900 text-white overflow-auto mb-8 text-sm font-mono''
             (leadingNewline html @ html))"
  by (simp add: staticMarkup_pre_def)

lemma staticMarkup_verbatim:
  "staticMarkup_pre (verbatim_pre code :: 'e node) =
     Some (pre_tag ''p-4 rounded-md bg-gray-900 text-white overflow-auto mb-8 text-sm font-mono''
             (leadingNewline code @ escapeHtml code))"
  by (simp add: staticMarkup_pre_def)

lemma staticMarkup_eq_iff:
  "staticMarkup_pre (highlighted_pre html :: 'e node) =
     staticMarkup_pre (verbatim_pre code :: 'e node) \<longleftrightarrow>
   html = escapeHtml code"
  by (simp only: staticMarkup_highlighted staticMarkup_verbatim option.inject pre_tag_def
      same_append_eq append_same_eq pre_inner_eq_iff)

lemma is_template_iconPage: "is_template (iconPage icons t n) \<longleftrightarrow> startsWith n ''[''"
  by (cases n) (simp_all add: is_template_def iconPage_def startsWith_def)

section \<open>The claims about the template expander\<close>

subsection \<open>C1: expansion completeness\<close>

text \<open>
  C1 as stated: with exactly one template page and \<open>M\<close> ordinary pages loaded, and a
  catalog of \<open>N\<close> entries, the final page list has \<open>M - 1 + N\<close> pages. It fails: one
  template, one ordinary page and two catalog entries give three pages, not two.
\<close>

theorem expansion_count_counterexample:
  "is_template sample_template \<and> \<not> is_template sample_guide \<and>
   length (filter is_template [sample_template, sample_guide]) = 1 \<and>
   length sample_icons = 2 \<and>
   expandPages sample_icons [sample_template, sample_guide] =
     Inr [sample_guide, iconPage sample_icons sample_template ''star'',
          iconPage sample_icons sample_template ''heart''] \<and>
   length [sample_guide, iconPage sample_icons sample_template ''star'',
           iconPage sample_icons sample_template ''heart''] \<noteq> 1 - 1 + 2"
  by code_simp

text \<open>
  C1, amended: with exactly one template page among the loaded pages, the expansion
  succeeds and the final list has \<open>M + N\<close> pages, \<open>M\<close> the number of ordinary pages and
  \<open>N\<close> the number of catalog entries; that is one less than the number of loaded
  pages, plus \<open>N\<close>.
\<close>

theorem expansion_count:
  assumes "length (filter is_template pages) = 1"
  shows "\<exists>out. expandPages icons pages = Inr out \<and>
           length out = length (filter (\<lambda>p. \<not> is_template p) pages) + length icons \<and>
           length out = length pages - 1 + length icons"
proof -
  from assms obtain t where t: "List.find is_template pages = Some t"
    using one_template_find by blast
  have "length (filter is_template pages) + length (filter (\<lambda>p. \<not> is_template p) pages) =
        length pages"
    by (rule sum_length_filter_compl)
  with assms have "length (filter (\<lambda>p. \<not> is_template p) pages) = length pages - 1"
    by simp
  with t show ?thesis
    by (simp add: expandPages_template length_object_keys)
qed

theorem expansion_count_witness:
  "length (filter is_template [sample_guide, sample_template, sample_star]) = 1 \<and>
   (\<exists>out. expandPages sample_icons [sample_guide, sample_template, sample_star] = Inr out \<and>
      length out = 2 + 2 \<and> length out = 3 - 1 + 2)"
proof -
  have h: "length (filter is_template [sample_guide, sample_template, sample_star]) = 1"
    by code_simp
  have m: "length (filter (\<lambda>p. \<not> is_template p) [sample_guide, sample_template, sample_star]) = 2"
    by code_simp
  have n: "length sample_icons = 2"
    by code_simp
  from expansion_count[OF h, of sample_icons] obtain out where
    o: "expandPages sample_icons [sample_guide, sample_template, sample_star] = Inr out"
      "length out =
         length (filter (\<lambda>p. \<not> is_template p) [sample_guide, sample_template, sample_star]) +
         length sample_icons"
      "length out = length [sample_guide, sample_template, sample_star] - 1 + length sample_icons"
    by blast
  from o(2) have "length out = 2 + 2" by (simp only: m n)
  moreover from o(3) n have "length out = 3 - 1 + 2" by simp
  ultimately show ?thesis using h o(1) by blast
qed

subsection \<open>C2: unique output names\<close>

text \<open>
  C2 as stated: no two pages of the final list share an output name. It fails: a
  directory holding \<^verbatim>\<open>[slug].mdx\<close> and \<^verbatim>\<open>star.mdx\<close>, with a catalog that has an entry
  \<^verbatim>\<open>star\<close>, yields the name \<^verbatim>\<open>star.html\<close> twice. The expansion step compares no names.
\<close>

theorem outputName_unique_counterexample:
  "loadPages sample_readFile sample_matter ''pages'' [''[slug].mdx'', ''star.mdx'', ''notes.txt''] =
     Inr [\<lparr>data = [], content = ''# [slug].mdx'', fileName = ''[slug].html''\<rparr>,
          \<lparr>data = [], content = ''# star.mdx'', fileName = ''star.html''\<rparr>] \<and>
   map_sum id (map fileName)
     (expandPages sample_icons
        [\<lparr>data = [], content = ''# [slug].mdx'', fileName = ''[slug].html''\<rparr>,
         \<lparr>data = [], content = ''# star.mdx'', fileName = ''star.html''\<rparr>]) =
     Inr [''star.html'', ''star.html'', ''heart.html''] \<and>
   \<not> distinct [''star.html'', ''star.html'', ''heart.html'']"
  by code_simp

text \<open>
  C2, amended: for pages loaded from distinct directory entries and a catalog with
  distinct keys, the output names of the final list are pairwise different exactly when
  no ordinary page is named \<^verbatim>\<open><key>.html\<close> for a catalog key. The ordinary pages among
  themselves, and the derived pages among themselves, never collide.
\<close>

theorem outputName_unique_iff:
  assumes "loadPages readFile matter folder files = Inr pages" and "distinct files"
    and "distinct (map fst icons)" and "expandPages icons pages = Inr out"
  shows "distinct (map fileName out) \<longleftrightarrow>
           (\<forall>p\<in>set pages. \<forall>k\<in>set (object_keys icons).
              is_template p \<or> fileName p \<noteq> k @ ''.html'')"
proof -
  have dp: "distinct (map fileName pages)" using assms(1,2) by (rule loadPages_distinct)
  have dk: "distinct (object_keys icons)" using assms(3) by (rule distinct_object_keys)
  have names: "map fileName out =
          map fileName (filter (\<lambda>p. \<not> is_template p) pages) @
          map (\<lambda>k. k @ ''.html'') (object_keys icons)"
  proof (cases "List.find is_template pages")
    case None
    with assms(4) show ?thesis
      by (auto simp: expandPages_no_template find_None_iff filter_id_conv object_keys_def
          split: if_splits)
  next
    case (Some t)
    with assms(4) show ?thesis
      by (auto simp: expandPages_template iconPage_fileName)
  qed
  have "distinct (map fileName (filter (\<lambda>p. \<not> is_template p) pages))"
    using dp by (rule distinct_map_filter)
  moreover have "distinct (map (\<lambda>k. k @ ''.html'') (object_keys icons))"
    using dk by (simp add: distinct_map inj_on_def)
  ultimately show ?thesis
    unfolding names by auto
qed

theorem outputName_unique_iff_witness:
  "loadPages sample_readFile sample_matter ''pages'' [''[slug].mdx'', ''guide.mdx'', ''notes.txt''] =
     Inr [\<lparr>data = [], content = ''# [slug].mdx'', fileName = ''[slug].html''\<rparr>,
          \<lparr>data = [], content = ''# guide.mdx'', fileName = ''guide.html''\<rparr>] \<and>
   distinct [''[slug].mdx'', ''guide.mdx'', ''notes.txt''] \<and>
   distinct (map fst sample_icons) \<and>
   map_sum id (map fileName)
     (expandPages sample_icons
        [\<lparr>data = [], content = ''# [slug].mdx'', fileName = ''[slug].html''\<rparr>,
         \<lparr>data = [], content = ''# guide.mdx'', fileName = ''guide.html''\<rparr>]) =
     Inr [''guide.html'', ''star.html'', ''heart.html''] \<and>
   distinct [''guide.html'', ''star.html'', ''heart.html'']"
proof -
  let ?files = "[''[slug].mdx'', ''guide.mdx'', ''notes.txt'']"
  let ?pages = "[\<lparr>data = [], content = ''# [slug].mdx'', fileName = ''[slug].html''\<rparr>,
                 \<lparr>data = [], content = ''# guide.mdx'', fileName = ''guide.html''\<rparr>]"
  let ?out = "[\<lparr>data = [], content = ''# guide.mdx'', fileName = ''guide.html''\<rparr>,
               iconPage sample_icons
                 \<lparr>data = [], content = ''# [slug].mdx'', fileName = ''[slug].html''\<rparr> ''star'',
               iconPage sample_icons
                 \<lparr>data = [], content = ''# [slug].mdx'', fileName = ''[slug].html''\<rparr> ''heart'']"
  have l: "loadPages sample_readFile sample_matter ''pages'' ?files = Inr ?pages"
    by code_simp
  have df: "distinct ?files" by simp
  have di: "distinct (map fst sample_icons)" by code_simp
  have e: "expandPages sample_icons ?pages = Inr ?out" by code_simp
  have names: "map fileName ?out = [''guide.html'', ''star.html'', ''heart.html'']" by code_simp
  have free: "\<forall>p\<in>set ?pages. \<forall>k\<in>set (object_keys sample_icons).
                is_template p \<or> fileName p \<noteq> k @ ''.html''"
    by code_simp
  from outputName_unique_iff[OF l df di e] free have "distinct (map fileName ?out)"
    by (simp only:)
  then have "distinct [''guide.html'', ''star.html'', ''heart.html'']"
    by (simp only: names)
  moreover have "map_sum id (map fileName) (expandPages sample_icons ?pages) =
      Inr [''guide.html'', ''star.html'', ''heart.html'']"
    by (simp only: e names map_sum.simps id_apply)
  ultimately show ?thesis using l df di by blast
qed

subsection \<open>C3: metadata of a derived page\<close>

text \<open>
  C3: the list returned when a template page exists ends with one derived page per
  catalog key; for every catalog entry \<open>(n, e)\<close> the derived page has \<^verbatim>\<open>title\<close> equal to
  the name \<open>n\<close> and \<^verbatim>\<open>icon\<close> equal to the record \<open>e\<close>, and every other key reads in the
  derived metadata exactly as in the template's, so a template value under \<^verbatim>\<open>title\<close> or
  \<^verbatim>\<open>icon\<close> is the only one replaced.
\<close>

theorem derived_metadata:
  assumes "List.find is_template pages = Some t" and "distinct (map fst icons)"
  shows "expandPages icons pages =
           Inr (filter (\<lambda>p. \<not> is_template p) pages @ map (iconPage icons t) (object_keys icons)) \<and>
         set (object_keys icons) = fst ` set icons \<and>
         (\<forall>(n, e)\<in>set icons.
            map_of (data (iconPage icons t n)) ''title'' = Some (Str n) \<and>
            map_of (data (iconPage icons t n)) ''icon'' = Some e \<and>
            (\<forall>k. k \<noteq> ''title'' \<longrightarrow> k \<noteq> ''icon'' \<longrightarrow>
                 map_of (data (iconPage icons t n)) k = map_of (data t) k))"
  using assms
  by (auto simp: expandPages_template set_object_keys iconPage_title iconPage_icon
      iconPage_other js_index_own)

theorem derived_metadata_witness:
  "List.find is_template [sample_template, sample_guide] = Some sample_template \<and>
   distinct (map fst sample_icons) \<and>
   expandPages sample_icons [sample_template, sample_guide] =
     Inr [sample_guide, iconPage sample_icons sample_template ''star'',
          iconPage sample_icons sample_template ''heart''] \<and>
   map_of (data (iconPage sample_icons sample_template ''star'')) ''title'' = Some (Str ''star'') \<and>
   map_of (data (iconPage sample_icons sample_template ''star'')) ''icon'' =
     Some (Obj [(''path'', Str ''M12 2 L15 9'')]) \<and>
   map_of (data (iconPage sample_icons sample_template ''star'')) ''layout'' = Some (Str ''icon'')"
proof -
  have f: "List.find is_template [sample_template, sample_guide] = Some sample_template"
    by code_simp
  have d: "distinct (map fst sample_icons)" by code_simp
  have k: "object_keys sample_icons = [''star'', ''heart'']" by code_simp
  have o: "filter (\<lambda>p. \<not> is_template p) [sample_template, sample_guide] = [sample_guide]"
    by code_simp
  have m: "(''star'', Obj [(''path'', Str ''M12 2 L15 9'')]) \<in> set sample_icons"
    by (simp add: sample_icons_def)
  have l: "map_of (data sample_template) ''layout'' = Some (Str ''icon'')"
    by (simp add: sample_template_def)
  note t = derived_metadata[OF f d]
  from t have "expandPages sample_icons [sample_template, sample_guide] =
     Inr (filter (\<lambda>p. \<not> is_template p) [sample_template, sample_guide] @
          map (iconPage sample_icons sample_template) (object_keys sample_icons))"
    by blast
  then have "expandPages sample_icons [sample_template, sample_guide] =
     Inr [sample_guide, iconPage sample_icons sample_template ''star'',
          iconPage sample_icons sample_template ''heart'']"
    by (simp only: k o list.map append_Cons append_Nil)
  moreover from t m have
    "map_of (data (iconPage sample_icons sample_template ''star'')) ''title'' = Some (Str ''star'') \<and>
     map_of (data (iconPage sample_icons sample_template ''star'')) ''icon'' =
       Some (Obj [(''path'', Str ''M12 2 L15 9'')]) \<and>
     map_of (data (iconPage sample_icons sample_template ''star'')) ''layout'' =
       map_of (data sample_template) ''layout''"
    by fastforce
  ultimately show ?thesis using f d l by simp
qed

subsection \<open>C4: body of a derived page\<close>

text \<open>
  C4: when a template page exists, the final list is the ordinary pages followed by one
  derived page per catalog entry, and the body of every derived page is the template's
  body.
\<close>

theorem derived_body:
  assumes "List.find is_template pages = Some t"
  shows "\<exists>derived. expandPages icons pages =
             Inr (filter (\<lambda>p. \<not> is_template p) pages @ derived) \<and>
           length derived = length icons \<and> (\<forall>d\<in>set derived. content d = content t)"
  using assms
  by (auto simp: expandPages_template length_object_keys iconPage_content)

theorem derived_body_witness:
  "List.find is_template [sample_guide, sample_template] = Some sample_template \<and>
   (\<exists>derived. expandPages sample_icons [sample_guide, sample_template] =
        Inr (filter (\<lambda>p. \<not> is_template p) [sample_guide, sample_template] @ derived) \<and>
      length derived = length sample_icons \<and>
      (\<forall>d\<in>set derived. content d = content sample_template))"
proof -
  have f: "List.find is_template [sample_guide, sample_template] = Some sample_template"
    by code_simp
  from derived_body[OF f, of sample_icons] f show ?thesis by blast
qed

subsection \<open>C5: output names\<close>

text \<open>
  C5: the derived page of the catalog key \<open>n\<close> is named \<open>n\<close> followed by \<^verbatim>\<open>.html\<close>, and
  the derived pages of the final list are exactly these; every loaded page comes from a
  directory entry \<^verbatim>\<open><stem>.mdx\<close> with a non-empty stem and is named \<^verbatim>\<open><stem>.html\<close>.
\<close>

theorem output_naming:
  "(List.find is_template pages = Some t \<longrightarrow>
      expandPages icons pages =
        Inr (filter (\<lambda>p. \<not> is_template p) pages @ map (iconPage icons t) (object_keys icons))) \<and>
   fileName (iconPage icons t n) = n @ ''.html'' \<and>
   (loadPages readFile matter folder files = Inr loaded \<longrightarrow>
      list_all2
        (\<lambda>f p. \<exists>stem. stem \<noteq> [] \<and> f = stem @ ''.mdx'' \<and> fileName p = stem @ ''.html'')
        (filter (\<lambda>f. extname f = ''.mdx'') files) loaded)"
  by (simp add: expandPages_template iconPage_fileName loadPages_named)

theorem output_naming_witness:
  "List.find is_template [sample_guide, sample_template] = Some sample_template \<and>
   expandPages sample_icons [sample_guide, sample_template] =
     Inr (filter (\<lambda>p. \<not> is_template p) [sample_guide, sample_template] @
          map (iconPage sample_icons sample_template) (object_keys sample_icons)) \<and>
   fileName (iconPage sample_icons sample_template ''star'') = ''star.html'' \<and>
   loadPages sample_readFile sample_matter ''pages'' [''[slug].mdx'', ''read.me'', ''guide.mdx''] =
     Inr [\<lparr>data = [], content = ''# [slug].mdx'', fileName = ''[slug].html''\<rparr>,
          \<lparr>data = [], content = ''# guide.mdx'', fileName = ''guide.html''\<rparr>] \<and>
   list_all2 (\<lambda>f p. \<exists>stem. stem \<noteq> [] \<and> f = stem @ ''.mdx'' \<and> fileName p = stem @ ''.html'')
     (filter (\<lambda>f. extname f = ''.mdx'') [''[slug].mdx'', ''read.me'', ''guide.mdx''])
     [\<lparr>data = [], content = ''# [slug].mdx'', fileName = ''[slug].html''\<rparr>,
      \<lparr>data = [], content = ''# guide.mdx'', fileName = ''guide.html''\<rparr>]"
proof -
  have f: "List.find is_template [sample_guide, sample_template] = Some sample_template"
    by code_simp
  have l: "loadPages sample_readFile sample_matter ''pages'' [''[slug].mdx'', ''read.me'', ''guide.mdx''] =
     Inr [\<lparr>data = [], content = ''# [slug].mdx'', fileName = ''[slug].html''\<rparr>,
          \<lparr>data = [], content = ''# guide.mdx'', fileName = ''guide.html''\<rparr>]"
    by code_simp
  from output_naming[of "[sample_guide, sample_template]" sample_template sample_icons "''star''"
      sample_readFile sample_matter "''pages''" "[''[slug].mdx'', ''read.me'', ''guide.mdx'']"
      "[\<lparr>data = [], content = ''# [slug].mdx'', fileName = ''[slug].html''\<rparr>,
        \<lparr>data = [], content = ''# guide.mdx'', fileName = ''guide.html''\<rparr>]"] f l
  show ?thesis by (simp only: simp_thms append.simps)
qed

subsection \<open>C9: order of the final list\<close>

text \<open>
  C9 as stated: the final list is the ordinary pages in loaded order, followed by the
  derived pages in the order the catalog declares its keys. It fails for keys that are
  array indices: a catalog declaring \<^verbatim>\<open>"2"\<close> before \<^verbatim>\<open>"1"\<close> yields \<^verbatim>\<open>1.html\<close> before
  \<^verbatim>\<open>2.html\<close>, because \<^verbatim>\<open>Object.keys\<close> lists such keys first and in numeric order; the
  list in declared order is not what the expansion returns.
\<close>

theorem page_order_counterexample:
  "map fst numeral_icons = [''2'', ''1''] \<and>
   List.find is_template [sample_template, sample_guide] = Some sample_template \<and>
   expandPages numeral_icons [sample_template, sample_guide] =
     Inr [sample_guide, iconPage numeral_icons sample_template ''1'',
          iconPage numeral_icons sample_template ''2''] \<and>
   map_sum id (map fileName) (expandPages numeral_icons [sample_template, sample_guide]) =
     Inr [''guide.html'', ''1.html'', ''2.html''] \<and>
   expandPages numeral_icons [sample_template, sample_guide] \<noteq>
     Inr [sample_guide, iconPage numeral_icons sample_template ''2'',
          iconPage numeral_icons sample_template ''1'']"
proof -
  have declared: "map fst numeral_icons = [''2'', ''1'']"
    by (simp add: numeral_icons_def)
  have keys: "object_keys numeral_icons = [''1'', ''2'']"
    by (simp add: object_keys_def numeral_icons_def array_index_def is_digit_def digits_value_def)
  have template: "List.find is_template [sample_template, sample_guide] = Some sample_template"
    by (simp add: is_template_def startsWith_def sample_template_def)
  have ordinary: "filter (\<lambda>p. \<not> is_template p) [sample_template, sample_guide] = [sample_guide]"
    by (simp add: is_template_def startsWith_def sample_template_def sample_guide_def)
  have out: "expandPages numeral_icons [sample_template, sample_guide] =
     Inr [sample_guide, iconPage numeral_icons sample_template ''1'',
          iconPage numeral_icons sample_template ''2'']"
    using expandPages_template[OF template, of numeral_icons]
    by (simp only: keys ordinary list.map append_Cons append_Nil)
  have names: "map_sum id (map fileName) (expandPages numeral_icons [sample_template, sample_guide]) =
     Inr [''guide.html'', ''1.html'', ''2.html'']"
  proof -
    have "fileName sample_guide = ''guide.html''" by (simp add: sample_guide_def)
    then show ?thesis by (simp add: out iconPage_fileName)
  qed
  have "iconPage numeral_icons sample_template ''1'' \<noteq> iconPage numeral_icons sample_template ''2''"
    by (simp add: iconPage_def)
  then have differs: "expandPages numeral_icons [sample_template, sample_guide] \<noteq>
     Inr [sample_guide, iconPage numeral_icons sample_template ''2'',
          iconPage numeral_icons sample_template ''1'']"
    by (simp add: out)
  from declared template out names differs show ?thesis by blast
qed

text \<open>
  C9, amended: when a template page exists, the final list is the ordinary pages in
  loaded order, followed by the derived pages in \<^verbatim>\<open>Object.keys\<close> order of the catalog:
  the keys that are array indices in ascending numeric order, then the remaining keys in
  declared order. For a catalog with no array-index key this is the declared order.
\<close>

theorem page_order:
  assumes "List.find is_template pages = Some t"
  shows "expandPages icons pages =
           Inr (filter (\<lambda>p. \<not> is_template p) pages @
                map (iconPage icons t)
                  (sort_key digits_value (filter array_index (map fst icons)) @
                   filter (\<lambda>k. \<not> array_index k) (map fst icons))) \<and>
         (list_all (\<lambda>k. \<not> array_index k) (map fst icons) \<longrightarrow>
            expandPages icons pages =
              Inr (filter (\<lambda>p. \<not> is_template p) pages @ map (iconPage icons t) (map fst icons)))"
proof -
  have keys: "object_keys icons =
          sort_key digits_value (filter array_index (map fst icons)) @
          filter (\<lambda>k. \<not> array_index k) (map fst icons)"
    by (simp add: object_keys_def Let_def)
  have first: "expandPages icons pages =
           Inr (filter (\<lambda>p. \<not> is_template p) pages @
                map (iconPage icons t)
                  (sort_key digits_value (filter array_index (map fst icons)) @
                   filter (\<lambda>k. \<not> array_index k) (map fst icons)))"
    using expandPages_template[OF assms, of icons] by (simp only: keys)
  have second: "expandPages icons pages =
              Inr (filter (\<lambda>p. \<not> is_template p) pages @ map (iconPage icons t) (map fst icons))"
    if "list_all (\<lambda>k. \<not> array_index k) (map fst icons)"
    using expandPages_template[OF assms, of icons] object_keys_plain[OF that] by (simp only:)
  from first second show ?thesis by blast
qed

theorem page_order_witness:
  "List.find is_template [sample_guide, sample_template, sample_star] = Some sample_template \<and>
   list_all (\<lambda>k. \<not> array_index k) (map fst sample_icons) \<and>
   expandPages sample_icons [sample_guide, sample_template, sample_star] =
     Inr [sample_guide, sample_star, iconPage sample_icons sample_template ''star'',
          iconPage sample_icons sample_template ''heart'']"
proof -
  have f: "List.find is_template [sample_guide, sample_template, sample_star] = Some sample_template"
    by code_simp
  have p: "list_all (\<lambda>k. \<not> array_index k) (map fst sample_icons)"
    by code_simp
  have o: "filter (\<lambda>p. \<not> is_template p) [sample_guide, sample_template, sample_star] =
      [sample_guide, sample_star]"
    by code_simp
  have k: "map fst sample_icons = [''star'', ''heart'']"
    by code_simp
  from page_order[OF f, of sample_icons] p have
    "expandPages sample_icons [sample_guide, sample_template, sample_star] =
       Inr (filter (\<lambda>p. \<not> is_template p) [sample_guide, sample_template, sample_star] @
            map (iconPage sample_icons sample_template) (map fst sample_icons))"
    by blast
  then have "expandPages sample_icons [sample_guide, sample_template, sample_star] =
     Inr [sample_guide, sample_star, iconPage sample_icons sample_template ''star'',
          iconPage sample_icons sample_template ''heart'']"
    by (simp only: o k list.map append_Cons append_Nil)
  with f p show ?thesis by blast
qed

subsection \<open>C10: several bracket pages\<close>

text \<open>
  C10 as stated: every page whose output name begins with \<^verbatim>\<open>[\<close> is excluded from the
  final page set. It fails when a catalog key begins with \<^verbatim>\<open>[\<close>. With the one key
  \<^verbatim>\<open>[slug]\<close> and a template \<^verbatim>\<open>[slug].mdx\<close> that already carries that title and that icon
  record, the final list is the template page again; and the derived page of a key
  \<^verbatim>\<open>[x\<close> is named \<^verbatim>\<open>[x.html\<close>.
\<close>

theorem bracket_pages_counterexample:
  "is_template self_template \<and>
   expandPages bracket_icons [self_template] = Inr [self_template] \<and>
   \<not> is_template sample_guide \<and> is_template sample_template \<and>
   expandPages bracket_x_icons [sample_guide, sample_template] =
     Inr [sample_guide, iconPage bracket_x_icons sample_template ''[x''] \<and>
   fileName (iconPage bracket_x_icons sample_template ''[x'') = ''[x.html'' \<and>
   is_template (iconPage bracket_x_icons sample_template ''[x'')"
  by code_simp

text \<open>
  C10, amended: let \<open>t\<close> be the first loaded page whose output name begins with \<^verbatim>\<open>[\<close>,
  after the pages \<open>pre\<close> and before the pages \<open>post\<close>, and let no catalog key begin with
  \<^verbatim>\<open>[\<close>. The expansion succeeds; no page of the final list has an output name that
  begins with \<^verbatim>\<open>[\<close>, so every loaded bracket page is dropped, however many there are;
  and every derived page takes its body and its remaining metadata from \<open>t\<close>.
\<close>

theorem bracket_pages_removed:
  assumes "\<forall>p\<in>set pre. \<not> is_template p" and "is_template t"
    and "\<forall>k\<in>set (map fst icons). \<not> startsWith k ''[''"
  shows "expandPages icons (pre @ t # post) =
           Inr (pre @ filter (\<lambda>p. \<not> is_template p) post @
                map (iconPage icons t) (object_keys icons)) \<and>
         (\<forall>p\<in>set (pre @ filter (\<lambda>p. \<not> is_template p) post @
                    map (iconPage icons t) (object_keys icons)). \<not> is_template p) \<and>
         (\<forall>n. content (iconPage icons t n) = content t \<and>
              (\<forall>k. k \<noteq> ''title'' \<longrightarrow> k \<noteq> ''icon'' \<longrightarrow>
                   map_of (data (iconPage icons t n)) k = map_of (data t) k))"
proof -
  have "List.find is_template (pre @ t # post) = Some t"
    using assms(1,2) by (rule find_first)
  moreover have "filter (\<lambda>p. \<not> is_template p) pre = pre"
    using assms(1) by (simp add: filter_id_conv)
  ultimately have out: "expandPages icons (pre @ t # post) =
           Inr (pre @ filter (\<lambda>p. \<not> is_template p) post @
                map (iconPage icons t) (object_keys icons))"
    using assms(2) by (simp add: expandPages_template)
  have derived: "\<forall>p\<in>set (map (iconPage icons t) (object_keys icons)). \<not> is_template p"
    using assms(3) by (auto simp: is_template_iconPage set_object_keys)
  with assms(1) have free: "\<forall>p\<in>set (pre @ filter (\<lambda>p. \<not> is_template p) post @
      map (iconPage icons t) (object_keys icons)). \<not> is_template p"
    by auto
  have source: "\<forall>n. content (iconPage icons t n) = content t \<and>
              (\<forall>k. k \<noteq> ''title'' \<longrightarrow> k \<noteq> ''icon'' \<longrightarrow>
                   map_of (data (iconPage icons t n)) k = map_of (data t) k)"
    by (simp add: iconPage_content iconPage_other)
  from out free source show ?thesis by blast
qed

theorem bracket_pages_removed_witness:
  "\<not> is_template sample_guide \<and> is_template sample_template \<and> is_template second_template \<and>
   \<not> startsWith ''star'' ''['' \<and> \<not> startsWith ''heart'' ''['' \<and>
   expandPages sample_icons [sample_guide, sample_template, second_template, sample_star] =
     Inr [sample_guide, sample_star, iconPage sample_icons sample_template ''star'',
          iconPage sample_icons sample_template ''heart''] \<and>
   \<not> is_template sample_star \<and>
   \<not> is_template (iconPage sample_icons sample_template ''star'') \<and>
   \<not> is_template (iconPage sample_icons sample_template ''heart'') \<and>
   content (iconPage sample_icons sample_template ''star'') = content sample_template"
proof -
  have g: "\<not> is_template sample_guide" by code_simp
  have t: "is_template sample_template" by code_simp
  have s: "is_template second_template" by code_simp
  have ks: "\<not> startsWith ''star'' ''['' \<and> \<not> startsWith ''heart'' ''[''" by code_simp
  have pre: "\<forall>p\<in>set [sample_guide]. \<not> is_template p" using g by simp
  have keys: "\<forall>k\<in>set (map fst sample_icons). \<not> startsWith k ''[''"
    using ks by (simp add: sample_icons_def)
  have post: "filter (\<lambda>p. \<not> is_template p) [second_template, sample_star] = [sample_star]"
    by code_simp
  have k: "object_keys sample_icons = [''star'', ''heart'']" by code_simp
  note r = bracket_pages_removed[OF pre t keys, of "[second_template, sample_star]"]
  from r have
    "expandPages sample_icons ([sample_guide] @ sample_template # [second_template, sample_star]) =
      Inr ([sample_guide] @ filter (\<lambda>p. \<not> is_template p) [second_template, sample_star] @
           map (iconPage sample_icons sample_template) (object_keys sample_icons))"
    by blast
  then have out: "expandPages sample_icons [sample_guide, sample_template, second_template, sample_star] =
     Inr [sample_guide, sample_star, iconPage sample_icons sample_template ''star'',
          iconPage sample_icons sample_template ''heart'']"
    by (simp only: post k list.map append_Cons append_Nil)
  from r have "\<forall>p\<in>set ([sample_guide] @ filter (\<lambda>p. \<not> is_template p) [second_template, sample_star] @
           map (iconPage sample_icons sample_template) (object_keys sample_icons)). \<not> is_template p"
    by blast
  then have free: "\<not> is_template sample_star \<and>
     \<not> is_template (iconPage sample_icons sample_template ''star'') \<and>
     \<not> is_template (iconPage sample_icons sample_template ''heart'')"
    by (simp only: post k list.map append_Cons append_Nil) simp
  from r have c: "content (iconPage sample_icons sample_template ''star'') = content sample_template"
    by blast
  from g t s ks out free c show ?thesis by blast
qed

section \<open>The claims about the components\<close>

subsection \<open>C6: the icon component\<close>




subsection \<open>C7: the code-block component\<close>

text \<open>
  C7 as stated: for every input with a language tag the component renders highlighted
  markup. It fails for a language the highlighter does not know: highlight.js throws on
  a language that is not registered, as the stand-in highlighter does, and the component
  throws with it.
\<close>

theorem codeblock_counterexample:
  "truthy (Str ''klingon'') \<and>
   sample_highlight ''let x'' (Str ''klingon'') = Inl HighlightError \<and>
   (CodeBlock sample_highlight \<lparr>language = Str ''klingon'', children = ''let x''\<rparr>
      :: error + unit node) = Inl HighlightError"
  by code_simp

text \<open>
  C7, amended: with a language tag that JavaScript counts as true (a non-empty string),
  the component returns, when the highlighter accepts the text and the language, a
  \<^verbatim>\<open>pre\<close> element that is written out with the highlighter's markup inside, as it is,
  and it throws what the highlighter throws otherwise. With no language tag, or one that
  counts as false (the empty string), it returns a \<^verbatim>\<open>pre\<close> element that is written out
  with the escaped text inside. The two written markups differ exactly when the
  highlighter's markup is not the escaped text.
\<close>

theorem codeblock_markup:
  "(truthy lang \<and> highlight code lang = Inr html \<longrightarrow>
      (CodeBlock highlight \<lparr>language = lang, children = code\<rparr> :: error + 'e node) =
        Inr (highlighted_pre html)) \<and>
   (truthy lang \<and> highlight code lang = Inl e \<longrightarrow>
      (CodeBlock highlight \<lparr>language = lang, children = code\<rparr> :: error + 'e node) = Inl e) \<and>
   (\<not> truthy lang \<longrightarrow>
      (CodeBlock highlight \<lparr>language = lang, children = code\<rparr> :: error + 'e node) =
        Inr (verbatim_pre code)) \<and>
   staticMarkup_pre (highlighted_pre html :: 'e node) =
     Some (pre_tag ''p-4 rounded-md bg-gray-900 text-white overflow-auto mb-8 text-sm font-mono''
             (leadingNewline html @ html)) \<and>
   staticMarkup_pre (verbatim_pre code :: 'e node) =
     Some (pre_tag ''p-4 rounded-md bg-gray-900 text-white overflow-auto mb-8 text-sm font-mono''
             (leadingNewline code @ escapeHtml code)) \<and>
   (staticMarkup_pre (highlighted_pre html :: 'e node) \<noteq> staticMarkup_pre (verbatim_pre code :: 'e node)
      \<longleftrightarrow> html \<noteq> escapeHtml code)"
proof -
  have branches:
    "(truthy lang \<and> highlight code lang = Inr html \<longrightarrow>
        (CodeBlock highlight \<lparr>language = lang, children = code\<rparr> :: error + 'e node) =
          Inr (highlighted_pre html)) \<and>
     (truthy lang \<and> highlight code lang = Inl e \<longrightarrow>
        (CodeBlock highlight \<lparr>language = lang, children = code\<rparr> :: error + 'e node) = Inl e) \<and>
     (\<not> truthy lang \<longrightarrow>
        (CodeBlock highlight \<lparr>language = lang, children = code\<rparr> :: error + 'e node) =
          Inr (verbatim_pre code))"
    by (simp add: CodeBlock_def)
  have differ:
    "staticMarkup_pre (highlighted_pre html :: 'e node) \<noteq> staticMarkup_pre (verbatim_pre code :: 'e node)
      \<longleftrightarrow> html \<noteq> escapeHtml code"
    using staticMarkup_eq_iff[of html code, where 'e = 'e] by (simp only:)
  from branches differ show ?thesis
    using staticMarkup_highlighted[of html, where 'e = 'e]
      staticMarkup_verbatim[of code, where 'e = 'e]
    by (intro conjI) blast+
qed

theorem codeblock_markup_witness:
  "truthy (Str ''javascript'') \<and>
   sample_highlight ''let x'' (Str ''javascript'') = Inr ''<b>let</b> x'' \<and>
   (CodeBlock sample_highlight \<lparr>language = Str ''javascript'', children = ''let x''\<rparr>
      :: error + unit node) = Inr (highlighted_pre ''<b>let</b> x'') \<and>
   ''<b>let</b> x'' \<noteq> escapeHtml ''let x'' \<and>
   staticMarkup_pre (highlighted_pre ''<b>let</b> x'' :: unit node) \<noteq>
     staticMarkup_pre (verbatim_pre ''let x'' :: unit node) \<and>
   sample_highlight ''x < 1'' (Str ''javascript'') = Inr ''x &lt; 1'' \<and>
   (CodeBlock sample_highlight \<lparr>language = Str ''javascript'', children = ''x < 1''\<rparr>
      :: error + unit node) = Inr (highlighted_pre ''x &lt; 1'') \<and>
   staticMarkup_pre (highlighted_pre ''x &lt; 1'' :: unit node) =
     staticMarkup_pre (verbatim_pre ''x < 1'' :: unit node) \<and>
   truthy (Str ''klingon'') \<and>
   sample_highlight ''let x'' (Str ''klingon'') = Inl HighlightError \<and>
   (CodeBlock sample_highlight \<lparr>language = Str ''klingon'', children = ''let x''\<rparr>
      :: error + unit node) = Inl HighlightError \<and>
   \<not> truthy (Str []) \<and>
   (CodeBlock sample_highlight \<lparr>language = Str [], children = ''let x''\<rparr>
      :: error + unit node) = Inr (verbatim_pre ''let x'') \<and>
   \<not> truthy Undefined \<and>
   (CodeBlock sample_highlight \<lparr>language = Undefined, children = ''let x''\<rparr>
      :: error + unit node) = Inr (verbatim_pre ''let x'')"
proof -
  have a: "truthy (Str ''javascript'') \<and>
           sample_highlight ''let x'' (Str ''javascript'') = Inr ''<b>let</b> x''"
    by code_simp
  have a2: "sample_highlight ''x < 1'' (Str ''javascript'') = Inr ''x &lt; 1''"
    by code_simp
  have b: "truthy (Str ''klingon'') \<and>
           sample_highlight ''let x'' (Str ''klingon'') = Inl HighlightError"
    by code_simp
  have c: "\<not> truthy (Str [])" by simp
  have u: "\<not> truthy Undefined" by simp
  have ne: "''<b>let</b> x'' \<noteq> escapeHtml ''let x''" by code_simp
  have eq: "''x &lt; 1'' = escapeHtml ''x < 1''" by code_simp
  note m1 = codeblock_markup[of "Str ''javascript''" sample_highlight "''let x''" "''<b>let</b> x''",
      where 'e = unit]
  note m2 = codeblock_markup[of "Str ''javascript''" sample_highlight "''x < 1''" "''x &lt; 1''",
      where 'e = unit]
  from m1 a
  have 1: "(CodeBlock sample_highlight \<lparr>language = Str ''javascript'', children = ''let x''\<rparr>
      :: error + unit node) = Inr (highlighted_pre ''<b>let</b> x'')" by blast
  from m1 ne
  have 2: "staticMarkup_pre (highlighted_pre ''<b>let</b> x'' :: unit node) \<noteq>
     staticMarkup_pre (verbatim_pre ''let x'' :: unit node)" by blast
  from m2 a a2
  have 3: "(CodeBlock sample_highlight \<lparr>language = Str ''javascript'', children = ''x < 1''\<rparr>
      :: error + unit node) = Inr (highlighted_pre ''x &lt; 1'')" by blast
  from m2 eq
  have 4: "staticMarkup_pre (highlighted_pre ''x &lt; 1'' :: unit node) =
     staticMarkup_pre (verbatim_pre ''x < 1'' :: unit node)" by blast
  from codeblock_markup[of "Str ''klingon''" sample_highlight "''let x''" _ HighlightError,
      where 'e = unit] b
  have 5: "(CodeBlock sample_highlight \<lparr>language = Str ''klingon'', children = ''let x''\<rparr>
      :: error + unit node) = Inl HighlightError" by blast
  from codeblock_markup[of "Str []" sample_highlight "''let x''", where 'e = unit] c
  have 6: "(CodeBlock sample_highlight \<lparr>language = Str [], children = ''let x''\<rparr>
      :: error + unit node) = Inr (verbatim_pre ''let x'')" by blast
  from codeblock_markup[of Undefined sample_highlight "''let x''", where 'e = unit] u
  have 7: "(CodeBlock sample_highlight \<lparr>language = Undefined, children = ''let x''\<rparr>
      :: error + unit node) = Inr (verbatim_pre ''let x'')" by blast
  from a a2 b c u ne 1 2 3 4 5 6 7 show ?thesis by blast
qed

end
